theory Spec2Isabelle
  imports Complex_Main
begin

section \<open>JavaScript values as App.js receives them\<close>

text \<open>
  The dashboard holds whatever \<^verbatim>\<open>JSON.parse\<close> and \<^verbatim>\<open>response.json()\<close> hand
  it, so the robots are untyped JavaScript values. A number is a double; its value is
  kept as a rational, with the two infinities (a JSON literal such as \<^verbatim>\<open>1e999\<close>
  parses to one) and NaN (what \<^verbatim>\<open>undefined\<close> converts to).
\<close>

datatype jsnum = Fin rat | PosInf | NegInf | NaN

datatype jsval =
    JUndefined
  | JNull
  | JBool bool
  | JNum jsnum
  | JStr string
  | JArr "jsval list"
  | JObj "(string \<times> jsval) list"

datatype error = TypeError | SyntaxError

text \<open>
  What the source calls but the repository does not contain: the engine's
  \<^verbatim>\<open>JSON.parse\<close>, its conversion of a string or an object to a number (used by
  \<^verbatim>\<open><\<close> when the operand is neither undefined, null, a boolean nor a number;
  it can raise), and \<^verbatim>\<open>new Date(v).toLocaleString()\<close>. They are parameters of
  the model; every theorem holds for all of them.
\<close>

record engine =
  JSON_parse :: "string \<Rightarrow> error + jsval"
  string_or_object_to_number :: "jsval \<Rightarrow> error + jsnum"
  date_to_locale_string :: "jsval \<Rightarrow> error + string"

definition bindE :: "error + 'a \<Rightarrow> ('a \<Rightarrow> error + 'b) \<Rightarrow> error + 'b" where
  "bindE m f = (case m of Inl e \<Rightarrow> Inl e | Inr x \<Rightarrow> f x)"

text \<open>\<^verbatim>\<open>xs.map(f)\<close> where \<open>f\<close> may throw: the first exception ends the loop.\<close>

fun mapE :: "('a \<Rightarrow> error + 'b) \<Rightarrow> 'a list \<Rightarrow> error + 'b list" where
  "mapE f [] = Inr []"
| "mapE f (x # xs) = bindE (f x) (\<lambda>y. bindE (mapE f xs) (\<lambda>ys. Inr (y # ys)))"

text \<open>\<^verbatim>\<open>xs.filter(p)\<close> where \<open>p\<close> may throw.\<close>

fun filterE :: "('a \<Rightarrow> error + bool) \<Rightarrow> 'a list \<Rightarrow> error + 'a list" where
  "filterE p [] = Inr []"
| "filterE p (x # xs) =
     bindE (p x) (\<lambda>keep. bindE (filterE p xs) (\<lambda>ys. Inr (if keep then x # ys else ys)))"

text \<open>
  \<^verbatim>\<open>v.name\<close> for a name that is no array index, not \<^verbatim>\<open>length\<close> and no
  built-in method (the seven field names App.js reads): reading a property of
  \<^verbatim>\<open>undefined\<close> or \<^verbatim>\<open>null\<close> raises TypeError, an object gives the stored
  value or \<^verbatim>\<open>undefined\<close>, every other value gives \<^verbatim>\<open>undefined\<close>.
\<close>

fun get_prop :: "jsval \<Rightarrow> string \<Rightarrow> error + jsval" where
  "get_prop JUndefined k = Inl TypeError"
| "get_prop JNull k = Inl TypeError"
| "get_prop (JObj kvs) k = Inr (case map_of kvs k of Some v \<Rightarrow> v | None \<Rightarrow> JUndefined)"
| "get_prop v k = Inr JUndefined"

text \<open>
  \<^verbatim>\<open>v[i]\<close> for an index \<open>i\<close>: an array gives its element or \<^verbatim>\<open>undefined\<close>
  past its end, a string its character, an object the value stored under the decimal
  spelling of \<open>i\<close>; \<^verbatim>\<open>undefined\<close> and \<^verbatim>\<open>null\<close> raise TypeError.
\<close>

definition digit_char :: "nat \<Rightarrow> char" where
  "digit_char d = ''0123456789'' ! d"

function index_key :: "nat \<Rightarrow> string" where
  "index_key n =
     (if n < 10 then [digit_char n] else index_key (n div 10) @ [digit_char (n mod 10)])"
  by pat_completeness auto
termination
  by (relation "measure id") auto

declare index_key.simps [simp del]

fun get_index :: "jsval \<Rightarrow> nat \<Rightarrow> error + jsval" where
  "get_index JUndefined i = Inl TypeError"
| "get_index JNull i = Inl TypeError"
| "get_index (JArr xs) i = Inr (if i < length xs then xs ! i else JUndefined)"
| "get_index (JStr s) i = Inr (if i < length s then JStr [s ! i] else JUndefined)"
| "get_index (JObj kvs) i =
     Inr (case map_of kvs (index_key i) of Some v \<Rightarrow> v | None \<Rightarrow> JUndefined)"
| "get_index v i = Inr JUndefined"

text \<open>\<^verbatim>\<open>v === "literal"\<close>: no conversion, only a string with the same characters.\<close>

fun strict_eq_str :: "jsval \<Rightarrow> string \<Rightarrow> bool" where
  "strict_eq_str (JStr s) lit = (s = lit)"
| "strict_eq_str v lit = False"

text \<open>\<^verbatim>\<open><\<close> on two doubles: false as soon as one side is NaN.\<close>

fun num_lt :: "jsnum \<Rightarrow> jsnum \<Rightarrow> bool" where
  "num_lt NaN y = False"
| "num_lt x NaN = False"
| "num_lt (Fin a) (Fin b) = (a < b)"
| "num_lt (Fin a) PosInf = True"
| "num_lt (Fin a) NegInf = False"
| "num_lt PosInf y = False"
| "num_lt NegInf NegInf = False"
| "num_lt NegInf y = True"

fun to_number :: "engine \<Rightarrow> jsval \<Rightarrow> error + jsnum" where
  "to_number eng JUndefined = Inr NaN"
| "to_number eng JNull = Inr (Fin 0)"
| "to_number eng (JBool b) = Inr (Fin (if b then 1 else 0))"
| "to_number eng (JNum n) = Inr n"
| "to_number eng v = string_or_object_to_number eng v"

text \<open>\<^verbatim>\<open>v < n\<close> with a number literal on the right.\<close>

definition js_lt :: "engine \<Rightarrow> jsval \<Rightarrow> jsnum \<Rightarrow> error + bool" where
  "js_lt eng v n = bindE (to_number eng v) (\<lambda>x. Inr (num_lt x n))"

fun Array_isArray :: "jsval \<Rightarrow> bool" where
  "Array_isArray (JArr xs) = True"
| "Array_isArray v = False"

fun array_length :: "jsval \<Rightarrow> nat" where
  "array_length (JArr xs) = length xs"
| "array_length v = 0"

fun typeof_number :: "jsval \<Rightarrow> bool" where
  "typeof_number (JNum n) = True"
| "typeof_number v = False"

text \<open>
  \<^verbatim>\<open>v.toFixed(2)\<close>: only a number has the method, so every other receiver raises
  TypeError (a JSON object may hold a key \<^verbatim>\<open>toFixed\<close>, never a function). The
  digits of the result are the engine's; the model keeps the number that is formatted.
\<close>

fun toFixed2 :: "jsval \<Rightarrow> error + jsnum" where
  "toFixed2 (JNum n) = Inr n"
| "toFixed2 v = Inl TypeError"

section \<open>The Presentation Filter and the colours (App.js, lines 59 to 74)\<close>

text \<open>The callback of \<^verbatim>\<open>robots.filter\<close>, case by case as the source has it.\<close>

definition filter_callback :: "engine \<Rightarrow> string \<Rightarrow> jsval \<Rightarrow> error + bool" where
  "filter_callback eng filter_mode robot =
     (if filter_mode = ''all'' then Inr True
      else if filter_mode = ''online'' then
        bindE (get_prop robot ''status'') (\<lambda>st. Inr (strict_eq_str st ''Online''))
      else if filter_mode = ''offline'' then
        bindE (get_prop robot ''status'') (\<lambda>st. Inr (strict_eq_str st ''Offline''))
      else if filter_mode = ''low-battery'' then
        bindE (get_prop robot ''battery'') (\<lambda>b. js_lt eng b (Fin 20))
      else Inr True)"

text \<open>
  \<^verbatim>\<open>robots.filter(...)\<close>: only an array has the method; on any other value of
  \<^verbatim>\<open>robots\<close> the call raises TypeError.
\<close>

fun filteredRobots :: "engine \<Rightarrow> string \<Rightarrow> jsval \<Rightarrow> error + jsval list" where
  "filteredRobots eng filter_mode (JArr xs) = filterE (filter_callback eng filter_mode) xs"
| "filteredRobots eng filter_mode v = Inl TypeError"

definition getStatusColor :: "engine \<Rightarrow> jsval \<Rightarrow> jsval \<Rightarrow> error + string" where
  "getStatusColor eng status battery =
     (if strict_eq_str status ''Offline'' then Inr ''red''
      else bindE (js_lt eng battery (Fin 20))
             (\<lambda>low. if low then Inr ''orange'' else Inr ''green''))"

section \<open>What the component renders (App.js, lines 76 to 178)\<close>

text \<open>
  The gate in front of a map marker, with the short circuit of \<^verbatim>\<open>&&\<close>: the
  length and the elements are read only once \<^verbatim>\<open>Array.isArray\<close> has held.
\<close>

definition location_gate :: "jsval \<Rightarrow> error + bool" where
  "location_gate loc =
     (if \<not> Array_isArray loc then Inr False
      else if array_length loc \<noteq> 2 then Inr False
      else bindE (get_index loc 0) (\<lambda>a.
        if \<not> typeof_number a then Inr False
        else bindE (get_index loc 1) (\<lambda>b. Inr (typeof_number b))))"

text \<open>A \<^verbatim>\<open>Marker\<close> element: its key, position, icon colour and the popup's fields.\<close>

record marker =
  m_key :: jsval
  m_position :: jsval
  m_color :: string
  m_id :: jsval
  m_status :: jsval
  m_battery :: jsval
  m_cpu :: jsval
  m_ram :: jsval

text \<open>
  The callback of the first \<^verbatim>\<open>filteredRobots.map\<close>: a marker, or \<^verbatim>\<open>null\<close>
  (here \<open>None\<close>) for a robot that fails the gate.
\<close>

definition marker_of :: "engine \<Rightarrow> jsval \<Rightarrow> error + marker option" where
  "marker_of eng robot =
     bindE (get_prop robot ''location'') (\<lambda>loc.
     bindE (location_gate loc) (\<lambda>ok.
       if ok then
         bindE (get_prop robot ''status'') (\<lambda>st.
         bindE (get_prop robot ''battery'') (\<lambda>b.
         bindE (getStatusColor eng st b) (\<lambda>color.
         bindE (get_prop robot ''id'') (\<lambda>i.
         bindE (get_prop robot ''cpu'') (\<lambda>c.
         bindE (get_prop robot ''ram'') (\<lambda>r.
           Inr (Some \<lparr>m_key = i, m_position = loc, m_color = color, m_id = i,
                        m_status = st, m_battery = b, m_cpu = c, m_ram = r\<rparr>)))))))
       else Inr None))"

text \<open>
  A table row: its key, the background of the row and of the status dot, the cells.
  The coordinate cells call \<^verbatim>\<open>toFixed(2)\<close> on \<^verbatim>\<open>robot.location[0]\<close> and
  \<^verbatim>\<open>robot.location[1]\<close> with no gate in front.
\<close>

record row =
  r_key :: jsval
  r_background :: string
  r_dot :: string
  r_id :: jsval
  r_battery :: jsval
  r_cpu :: jsval
  r_ram :: jsval
  r_last_updated :: string
  r_lat :: jsnum
  r_lon :: jsnum

definition row_of :: "engine \<Rightarrow> jsval \<Rightarrow> error + row" where
  "row_of eng robot =
     bindE (get_prop robot ''id'') (\<lambda>i.
     bindE (get_prop robot ''status'') (\<lambda>st.
     bindE (get_prop robot ''battery'') (\<lambda>b.
     bindE (getStatusColor eng st b) (\<lambda>bg.
     bindE (getStatusColor eng st b) (\<lambda>dot.
     bindE (get_prop robot ''cpu'') (\<lambda>c.
     bindE (get_prop robot ''ram'') (\<lambda>r.
     bindE (get_prop robot ''last_updated'') (\<lambda>lu.
     bindE (date_to_locale_string eng lu) (\<lambda>t.
     bindE (get_prop robot ''location'') (\<lambda>loc.
     bindE (get_index loc 0) (\<lambda>l0.
     bindE (toFixed2 l0) (\<lambda>lat.
     bindE (get_index loc 1) (\<lambda>l1.
     bindE (toFixed2 l1) (\<lambda>lon.
       Inr \<lparr>r_key = i, r_background = bg, r_dot = dot, r_id = i, r_battery = b,
            r_cpu = c, r_ram = r, r_last_updated = t, r_lat = lat, r_lon = lon\<rparr>
     ))))))))))))))"

text \<open>
  One evaluation of the component's body: the derived list, then the markers, then the
  rows. An exception anywhere leaves the render without a result, so neither the map nor
  the table is shown.
\<close>

record view =
  markers :: "marker option list"
  rows :: "row list"

definition render :: "engine \<Rightarrow> jsval \<Rightarrow> string \<Rightarrow> error + view" where
  "render eng robots filter_mode =
     bindE (filteredRobots eng filter_mode robots) (\<lambda>fr.
     bindE (mapE (marker_of eng) fr) (\<lambda>ms.
     bindE (mapE (row_of eng) fr) (\<lambda>rs.
       Inr \<lparr>markers = ms, rows = rs\<rparr>)))"

section \<open>The state of the view and its handlers (App.js, lines 8 to 57)\<close>

text \<open>
  What the two effects touch: the two state cells, the variable \<^verbatim>\<open>socket\<close> of the
  second effect (an index into the connections created so far, \<open>None\<close> while it is
  undefined), the connections, the timers handed to \<^verbatim>\<open>setTimeout\<close> (their only
  callback is \<^verbatim>\<open>connectWebSocket\<close>), the fetch requests issued, the alerts shown,
  the console, and the exceptions no handler caught.
\<close>

datatype phase = Initial | Mounted | Unmounted

datatype ready_state = CONNECTING | OPEN | CLOSING | CLOSED

record websocket =
  ws_url :: string
  ready :: ready_state
  close_calls :: nat

record timer =
  t_delay :: nat
  t_pending :: bool

datatype detail = ErrorObject string | Exception error | EventObject

datatype log_entry = ConsoleError string detail | ConsoleLog string

record app =
  phase :: phase
  robots :: jsval
  filter_mode :: string
  socket :: "nat option"
  sockets :: "websocket list"
  timers :: "timer list"
  fetches :: nat
  fetch_pending :: bool
  alerts :: "string list"
  console :: "log_entry list"
  uncaught :: "error list"

definition init :: app where
  "init = \<lparr>phase = Initial, robots = JArr [], filter_mode = ''all'', socket = None,
            sockets = [], timers = [], fetches = 0, fetch_pending = False, alerts = [],
            console = [], uncaught = []\<rparr>"

definition BACKEND_URL :: string where
  "BACKEND_URL = ''https://robot-monitoring-backend-2.onrender.com''"

text \<open>\<^verbatim>\<open>s.replace(pat, rep)\<close> with string arguments: the first occurrence only.\<close>

fun string_replace :: "string \<Rightarrow> string \<Rightarrow> string \<Rightarrow> string" where
  "string_replace pat rep [] = (if pat = [] then rep else [])"
| "string_replace pat rep (c # cs) =
     (if take (length pat) (c # cs) = pat then rep @ drop (length pat) (c # cs)
      else c # string_replace pat rep cs)"

definition setRobots :: "jsval \<Rightarrow> app \<Rightarrow> app" where
  "setRobots v s = s\<lparr>robots := v\<rparr>"

definition setFilter :: "string \<Rightarrow> app \<Rightarrow> app" where
  "setFilter m s = s\<lparr>filter_mode := m\<rparr>"

definition alert :: "string \<Rightarrow> app \<Rightarrow> app" where
  "alert msg s = s\<lparr>alerts := alerts s @ [msg]\<rparr>"

definition console_error :: "string \<Rightarrow> detail \<Rightarrow> app \<Rightarrow> app" where
  "console_error label d s = s\<lparr>console := console s @ [ConsoleError label d]\<rparr>"

definition console_log :: "string \<Rightarrow> app \<Rightarrow> app" where
  "console_log msg s = s\<lparr>console := console s @ [ConsoleLog msg]\<rparr>"

definition setTimeout :: "nat \<Rightarrow> app \<Rightarrow> app" where
  "setTimeout ms s = s\<lparr>timers := timers s @ [\<lparr>t_delay = ms, t_pending = True\<rparr>]\<rparr>"

subsection \<open>The Snapshot Loader\<close>

text \<open>
  \<^verbatim>\<open>fetchRobots\<close> runs up to its first \<^verbatim>\<open>await\<close> when the effect calls it, and
  resumes when the request settles: rejected (a transport error), or answered with the
  \<^verbatim>\<open>ok\<close> flag, the status text and a body that \<^verbatim>\<open>response.json()\<close> parses.
\<close>

datatype fetch_outcome = FetchRejected string | Response bool string string

definition fetchRobots_start :: "app \<Rightarrow> app" where
  "fetchRobots_start s = s\<lparr>fetches := fetches s + 1, fetch_pending := True\<rparr>"

definition fetch_catch :: "detail \<Rightarrow> app \<Rightarrow> app" where
  "fetch_catch d s =
     alert ''Failed to fetch robot data. Please check if the backend is running.''
       (console_error ''Error fetching robots:'' d s)"

definition fetchRobots_done :: "engine \<Rightarrow> fetch_outcome \<Rightarrow> app \<Rightarrow> app" where
  "fetchRobots_done eng outcome s =
     (let s1 = s\<lparr>fetch_pending := False\<rparr> in
      case outcome of
        FetchRejected msg \<Rightarrow> fetch_catch (ErrorObject msg) s1
      | Response ok statusText body \<Rightarrow>
          if \<not> ok then fetch_catch (ErrorObject (''Error: '' @ statusText)) s1
          else (case JSON_parse eng body of
                  Inl e \<Rightarrow> fetch_catch (Exception e) s1
                | Inr data \<Rightarrow> setRobots data s1))"

subsection \<open>The Update Channel\<close>

definition connectWebSocket :: "app \<Rightarrow> app" where
  "connectWebSocket s =
     s\<lparr>sockets := sockets s @
          [\<lparr>ws_url = string_replace ''http'' ''ws'' BACKEND_URL @ ''/updates'',
            ready = CONNECTING, close_calls = 0\<rparr>],
       socket := Some (length (sockets s))\<rparr>"

text \<open>An exception of \<^verbatim>\<open>JSON.parse\<close> leaves the handler uncaught, before \<^verbatim>\<open>setRobots\<close>.\<close>

definition onmessage :: "engine \<Rightarrow> string \<Rightarrow> app \<Rightarrow> app" where
  "onmessage eng data s =
     (case JSON_parse eng data of
        Inl e \<Rightarrow> s\<lparr>uncaught := uncaught s @ [e]\<rparr>
      | Inr updatedRobots \<Rightarrow> setRobots updatedRobots s)"

definition onerror :: "app \<Rightarrow> app" where
  "onerror s =
     setTimeout 5000
       (alert ''WebSocket connection failed. Retrying in 5 seconds...''
         (console_error ''WebSocket error:'' EventObject s))"

definition onclose :: "app \<Rightarrow> app" where
  "onclose s =
     setTimeout 5000 (console_log ''WebSocket closed. Reconnecting in 5 seconds...'' s)"

text \<open>
  \<^verbatim>\<open>socket.close()\<close>: a connection that is connecting or open starts closing, one
  that is closing or closed stays as it is; the call is counted.
\<close>

definition ws_close :: "websocket \<Rightarrow> websocket" where
  "ws_close w =
     w\<lparr>ready := (if ready w = CONNECTING \<or> ready w = OPEN then CLOSING else ready w),
       close_calls := close_calls w + 1\<rparr>"

text \<open>The function the second effect returns: \<^verbatim>\<open>if (socket) socket.close()\<close>.\<close>

definition cleanup :: "app \<Rightarrow> app" where
  "cleanup s =
     (case socket s of
        None \<Rightarrow> s
      | Some i \<Rightarrow> s\<lparr>sockets := (sockets s)[i := ws_close (sockets s ! i)]\<rparr>)"

subsection \<open>The event loop\<close>

text \<open>
  One event at a time, each handler run to its end. The environment delivers an event
  only when it can occur: the view mounts once and unmounts once; the fetch settles
  while it is pending; a connection opens while connecting, receives messages while
  open, reports an error or its closing while its close event has not been dispatched
  (\<open>CLOSED\<close> marks that it has); a timer fires once. Any other event is refused
  (\<open>None\<close>).
\<close>

datatype button = AllRobots | Online | Offline | LowBattery

fun button_mode :: "button \<Rightarrow> string" where
  "button_mode AllRobots = ''all''"
| "button_mode Online = ''online''"
| "button_mode Offline = ''offline''"
| "button_mode LowBattery = ''low-battery''"

datatype event =
    EvMount
  | EvUnmount
  | EvFetchDone fetch_outcome
  | EvOpen nat
  | EvMessage nat string
  | EvError nat
  | EvClose nat
  | EvTimer nat
  | EvClick button

definition set_ready :: "nat \<Rightarrow> ready_state \<Rightarrow> app \<Rightarrow> app" where
  "set_ready i r s = s\<lparr>sockets := (sockets s)[i := (sockets s ! i)\<lparr>ready := r\<rparr>]\<rparr>"

definition timer_fired :: "nat \<Rightarrow> app \<Rightarrow> app" where
  "timer_fired t s = s\<lparr>timers := (timers s)[t := (timers s ! t)\<lparr>t_pending := False\<rparr>]\<rparr>"

fun step :: "engine \<Rightarrow> app \<Rightarrow> event \<Rightarrow> app option" where
  "step eng s EvMount =
     (if phase s = Initial
      then Some (connectWebSocket (fetchRobots_start (s\<lparr>phase := Mounted\<rparr>)))
      else None)"
| "step eng s EvUnmount =
     (if phase s = Mounted then Some ((cleanup s)\<lparr>phase := Unmounted\<rparr>) else None)"
| "step eng s (EvFetchDone outcome) =
     (if fetch_pending s then Some (fetchRobots_done eng outcome s) else None)"
| "step eng s (EvOpen i) =
     (if i < length (sockets s) \<and> ready (sockets s ! i) = CONNECTING
      then Some (set_ready i OPEN s) else None)"
| "step eng s (EvMessage i data) =
     (if i < length (sockets s) \<and> ready (sockets s ! i) = OPEN
      then Some (onmessage eng data s) else None)"
| "step eng s (EvError i) =
     (if i < length (sockets s) \<and> ready (sockets s ! i) \<noteq> CLOSED
      then Some (onerror s) else None)"
| "step eng s (EvClose i) =
     (if i < length (sockets s) \<and> ready (sockets s ! i) \<noteq> CLOSED
      then Some (onclose (set_ready i CLOSED s)) else None)"
| "step eng s (EvTimer t) =
     (if t < length (timers s) \<and> t_pending (timers s ! t)
      then Some (connectWebSocket (timer_fired t s)) else None)"
| "step eng s (EvClick b) =
     (if phase s = Mounted then Some (setFilter (button_mode b) s) else None)"

fun run :: "engine \<Rightarrow> app \<Rightarrow> event list \<Rightarrow> app option" where
  "run eng s [] = Some s"
| "run eng s (e # es) = (case step eng s e of None \<Rightarrow> None | Some s' \<Rightarrow> run eng s' es)"

text \<open>\<open>n\<close> rounds of: connection \<open>k\<close> closes, the timer it scheduled fires.\<close>

fun reconnect_rounds :: "nat \<Rightarrow> nat \<Rightarrow> event list" where
  "reconnect_rounds k 0 = []"
| "reconnect_rounds k (Suc n) = EvClose k # EvTimer k # reconnect_rounds (Suc k) n"

text \<open>
  The body of the component reads the two state cells and nothing else: line 60 derives
  the list, the JSX renders it. (A completion that arrives after the view is gone still
  writes the cell in this model; nothing reads it then.)
\<close>

definition derived :: "engine \<Rightarrow> app \<Rightarrow> error + jsval list" where
  "derived eng s = filteredRobots eng (filter_mode s) (robots s)"

definition App :: "engine \<Rightarrow> app \<Rightarrow> error + view" where
  "App eng s = render eng (robots s) (filter_mode s)"

section \<open>The specification's vocabulary\<close>

text \<open>
  A value whose properties can be read (anything but \<^verbatim>\<open>undefined\<close> and
  \<^verbatim>\<open>null\<close>), and a robot whose \<^verbatim>\<open>battery\<close> is a number, as the data model
  of the specification has it.
\<close>

definition readable :: "jsval \<Rightarrow> bool" where
  "readable r = (r \<noteq> JUndefined \<and> r \<noteq> JNull)"

definition has_numeric_battery :: "jsval \<Rightarrow> bool" where
  "has_numeric_battery r =
     (case get_prop r ''battery'' of Inr (JNum n) \<Rightarrow> True | _ \<Rightarrow> False)"

definition has_status :: "jsval \<Rightarrow> string \<Rightarrow> bool" where
  "has_status r lit = (get_prop r ''status'' = Inr (JStr lit))"

definition battery_below :: "jsval \<Rightarrow> rat \<Rightarrow> bool" where
  "battery_below r limit =
     (case get_prop r ''battery'' of Inr (JNum n) \<Rightarrow> num_lt n (Fin limit) | _ \<Rightarrow> False)"

text \<open>
  The Presentation Filter in the specification's words: \<open>all\<close> keeps every robot,
  \<open>online\<close> those whose status is exactly \<open>Online\<close>, \<open>offline\<close> those whose status is
  exactly \<open>Offline\<close>, \<open>low-battery\<close> those whose battery is below 20 whatever the
  status, and an unknown mode keeps every robot.
\<close>

definition spec_keeps :: "string \<Rightarrow> jsval \<Rightarrow> bool" where
  "spec_keeps m r =
     (if m = ''all'' then True
      else if m = ''online'' then has_status r ''Online''
      else if m = ''offline'' then has_status r ''Offline''
      else if m = ''low-battery'' then battery_below r 20
      else True)"

text \<open>The robots a fleet value holds: the elements of an array, none otherwise.\<close>

fun fleet_robots :: "jsval \<Rightarrow> jsval list" where
  "fleet_robots (JArr xs) = xs"
| "fleet_robots v = []"

text \<open>The location gate in the specification's words: an array of exactly two numbers.\<close>

fun valid_location :: "jsval \<Rightarrow> bool" where
  "valid_location (JArr [JNum a, JNum b]) = True"
| "valid_location v = False"

fun is_message :: "event \<Rightarrow> bool" where
  "is_message (EvMessage i d) = True"
| "is_message e = False"

text \<open>A failed snapshot: the request rejected, or answered with a status outside 2xx.\<close>

fun fetch_failed :: "fetch_outcome \<Rightarrow> bool" where
  "fetch_failed (FetchRejected msg) = True"
| "fetch_failed (Response ok statusText body) = (\<not> ok)"

fun failure_detail :: "fetch_outcome \<Rightarrow> detail" where
  "failure_detail (FetchRejected msg) = ErrorObject msg"
| "failure_detail (Response ok statusText body) = ErrorObject (''Error: '' @ statusText)"

section \<open>Sample data\<close>

definition sample_robot :: "string \<Rightarrow> string \<Rightarrow> rat \<Rightarrow> jsval \<Rightarrow> jsval" where
  "sample_robot i st b loc =
     JObj [(''id'', JStr i), (''status'', JStr st), (''battery'', JNum (Fin b)),
           (''cpu'', JNum (Fin 40)), (''ram'', JNum (Fin 512)),
           (''last_updated'', JStr ''2024-01-01T00:00:00Z''), (''location'', loc)]"

definition sample_fleet :: "jsval list" where
  "sample_fleet =
     [sample_robot ''r1'' ''Online'' 15 (JArr [JNum (Fin 1), JNum (Fin 2)]),
      sample_robot ''r2'' ''Offline'' 5 (JArr [JNum (Fin 3), JNum (Fin 4)]),
      sample_robot ''r3'' ''online'' 80 (JArr [JNum (Fin 5), JNum (Fin 6)])]"

text \<open>
  An engine for the sample runs: every payload decodes to one robot, \<open>r9\<close>; strings and
  objects convert to NaN; every date prints the same.
\<close>

definition sample_engine :: engine where
  "sample_engine =
     \<lparr>JSON_parse = (\<lambda>d. Inr (JArr [sample_robot ''r9'' ''Online'' 70 JNull])),
      string_or_object_to_number = (\<lambda>v. Inr NaN),
      date_to_locale_string = (\<lambda>v. Inr ''1/1/2024, 12:00:00 AM'')\<rparr>"

section \<open>Facts about the exception-passing combinators\<close>

lemma bindE_Inr [simp]: "bindE (Inr x) f = f x"
  by (simp add: bindE_def)

lemma bindE_Inl [simp]: "bindE (Inl e) f = Inl e"
  by (simp add: bindE_def)

lemma bindE_eq_Inr: "bindE m f = Inr y \<longleftrightarrow> (\<exists>x. m = Inr x \<and> f x = Inr y)"
  by (cases m) simp_all

lemma filterE_total:
  "(\<And>x. x \<in> set xs \<Longrightarrow> p x = Inr (q x)) \<Longrightarrow> filterE p xs = Inr (filter q xs)"
  by (induction xs) simp_all

lemma filterE_sound:
  "filterE p xs = Inr ys \<Longrightarrow>
     ys = filter (\<lambda>x. p x = Inr True) xs \<and> (\<forall>x\<in>set xs. \<exists>b. p x = Inr b)"
proof (induction xs arbitrary: ys)
  case Nil
  then show ?case by simp
next
  case (Cons x xs)
  from Cons.prems obtain keep zs where k: "p x = Inr keep" and z: "filterE p xs = Inr zs"
    and y: "ys = (if keep then x # zs else zs)"
    by (auto simp: bindE_eq_Inr)
  from Cons.IH [OF z] k y show ?case by auto
qed

lemma filterE_idem:
  assumes "filterE p xs = Inr ys"
  shows "filterE p ys = Inr ys"
proof -
  from filterE_sound [OF assms] have ys: "ys = filter (\<lambda>x. p x = Inr True) xs"
    by simp
  have "\<And>x. x \<in> set ys \<Longrightarrow> p x = Inr ((\<lambda>_. True) x)"
    using ys by auto
  from filterE_total [of ys p "\<lambda>_. True", OF this] show ?thesis
    by simp
qed

lemma filterE_length: "filterE p xs = Inr ys \<Longrightarrow> length ys \<le> length xs"
  using filterE_sound [of p xs ys] by simp

lemma mapE_length: "mapE f xs = Inr ys \<Longrightarrow> length ys = length xs"
  by (induction xs arbitrary: ys) (auto simp: bindE_eq_Inr)

lemma mapE_all_Inr: "mapE f xs = Inr ys \<Longrightarrow> x \<in> set xs \<Longrightarrow> \<exists>y. f x = Inr y"
  by (induction xs arbitrary: ys) (auto simp: bindE_eq_Inr)

section \<open>The filter\<close>

lemma get_prop_readable: "readable r \<Longrightarrow> \<exists>v. get_prop r k = Inr v"
  by (cases r) (simp_all add: readable_def)

lemma strict_eq_str_iff: "strict_eq_str v lit \<longleftrightarrow> v = JStr lit"
  by (cases v) auto

lemma filter_callback_spec:
  assumes "readable r" "m = ''low-battery'' \<longrightarrow> has_numeric_battery r"
  shows "filter_callback eng m r = Inr (spec_keeps m r)"
proof -
  from get_prop_readable [OF assms(1)] obtain st where
    st: "get_prop r ''status'' = Inr st"
    by blast
  show ?thesis
  proof (cases "m = ''low-battery''")
    case True
    with assms(2) obtain n where "get_prop r ''battery'' = Inr (JNum n)"
      by (auto simp: has_numeric_battery_def split: sum.splits jsval.splits)
    with True show ?thesis
      by (simp add: filter_callback_def spec_keeps_def battery_below_def js_lt_def)
  next
    case False
    then show ?thesis
      by (simp add: filter_callback_def spec_keeps_def has_status_def st strict_eq_str_iff)
  qed
qed

lemma filter_callback_pass:
  assumes "m = ''all'' \<or> (m \<noteq> ''online'' \<and> m \<noteq> ''offline'' \<and> m \<noteq> ''low-battery'')"
  shows "filter_callback eng m r = Inr True"
  using assms by (auto simp: filter_callback_def)

lemma filterE_pass: "(\<And>x. p x = Inr True) \<Longrightarrow> filterE p xs = Inr xs"
  by (induction xs) simp_all

text \<open>
  C4. On a fleet of readable robots (with a numeric battery where the mode is
  \<open>low-battery\<close>) the derived list holds exactly the robots the specification keeps, in
  the fleet's order: every robot under \<open>all\<close>, those whose status is exactly \<open>Online\<close>
  under \<open>online\<close>, those whose status is exactly \<open>Offline\<close> under \<open>offline\<close>, those
  whose battery is below 20 under \<open>low-battery\<close> whatever their status. Under \<open>all\<close>
  and under any mode outside the four the whole fleet passes, whatever it holds.
\<close>

theorem filter_keeps_by_mode:
  "((\<forall>r\<in>set xs. readable r \<and> (m = ''low-battery'' \<longrightarrow> has_numeric_battery r)) \<longrightarrow>
      filteredRobots eng m (JArr xs) = Inr (filter (spec_keeps m) xs)) \<and>
   (m = ''all'' \<or> (m \<noteq> ''online'' \<and> m \<noteq> ''offline'' \<and> m \<noteq> ''low-battery'') \<longrightarrow>
      filteredRobots eng m (JArr xs) = Inr xs)"
proof (intro conjI impI)
  assume "\<forall>r\<in>set xs. readable r \<and> (m = ''low-battery'' \<longrightarrow> has_numeric_battery r)"
  then have "\<And>r. r \<in> set xs \<Longrightarrow> filter_callback eng m r = Inr (spec_keeps m r)"
    by (simp add: filter_callback_spec)
  then show "filteredRobots eng m (JArr xs) = Inr (filter (spec_keeps m) xs)"
    by (simp add: filterE_total)
next
  assume "m = ''all'' \<or> (m \<noteq> ''online'' \<and> m \<noteq> ''offline'' \<and> m \<noteq> ''low-battery'')"
  then have "\<And>r. filter_callback eng m r = Inr True"
    by (rule filter_callback_pass)
  then show "filteredRobots eng m (JArr xs) = Inr xs"
    by (simp add: filterE_pass)
qed

theorem filter_keeps_by_mode_witness:
  "readable (sample_fleet ! 0) \<and> readable (sample_fleet ! 1) \<and> readable (sample_fleet ! 2) \<and>
   has_numeric_battery (sample_fleet ! 0) \<and> has_numeric_battery (sample_fleet ! 1) \<and>
   has_numeric_battery (sample_fleet ! 2) \<and>
   filteredRobots sample_engine ''low-battery'' (JArr sample_fleet) =
     Inr [sample_fleet ! 0, sample_fleet ! 1] \<and>
   filteredRobots sample_engine ''online'' (JArr sample_fleet) = Inr [sample_fleet ! 0] \<and>
   filteredRobots sample_engine ''offline'' (JArr sample_fleet) = Inr [sample_fleet ! 1] \<and>
   filteredRobots sample_engine ''all'' (JArr sample_fleet) = Inr sample_fleet \<and>
   filteredRobots sample_engine ''Online'' (JArr sample_fleet) = Inr sample_fleet"
proof -
  have h: "\<forall>r\<in>set sample_fleet. readable r \<and> (m = ''low-battery'' \<longrightarrow> has_numeric_battery r)"
    for m
    by (simp add: sample_fleet_def sample_robot_def readable_def has_numeric_battery_def)
  have k: "filter (spec_keeps ''low-battery'') sample_fleet = [sample_fleet ! 0, sample_fleet ! 1]"
    "filter (spec_keeps ''online'') sample_fleet = [sample_fleet ! 0]"
    "filter (spec_keeps ''offline'') sample_fleet = [sample_fleet ! 1]"
    "filter (spec_keeps ''all'') sample_fleet = sample_fleet"
    "filter (spec_keeps ''Online'') sample_fleet = sample_fleet"
    by (simp_all add: sample_fleet_def sample_robot_def spec_keeps_def battery_below_def
        has_status_def)
  have r: "readable (sample_fleet ! 0) \<and> readable (sample_fleet ! 1) \<and>
    readable (sample_fleet ! 2) \<and> has_numeric_battery (sample_fleet ! 0) \<and>
    has_numeric_battery (sample_fleet ! 1) \<and> has_numeric_battery (sample_fleet ! 2)"
    by (simp add: sample_fleet_def sample_robot_def readable_def has_numeric_battery_def)
  from filter_keeps_by_mode [of sample_fleet "''low-battery''" sample_engine]
    filter_keeps_by_mode [of sample_fleet "''online''" sample_engine]
    filter_keeps_by_mode [of sample_fleet "''offline''" sample_engine]
    filter_keeps_by_mode [of sample_fleet "''all''" sample_engine]
    filter_keeps_by_mode [of sample_fleet "''Online''" sample_engine]
    h k r
  show ?thesis
    by simp
qed

text \<open>
  C9. The derived list depends on the fleet and the mode alone (two states that agree
  on both cells derive the same list), the derivation returns a list and no state, and
  filtering the derived list again under the same mode gives it back unchanged; on a
  fleet of readable robots (with numeric batteries under \<open>low-battery\<close>) the derivation
  does return a list.
\<close>

theorem filter_is_pure_and_idempotent:
  "(robots s = robots t \<and> filter_mode s = filter_mode t \<longrightarrow> derived eng s = derived eng t) \<and>
   (filteredRobots eng m (JArr xs) = Inr ys \<longrightarrow> filteredRobots eng m (JArr ys) = Inr ys) \<and>
   ((\<forall>r\<in>set xs. readable r \<and> (m = ''low-battery'' \<longrightarrow> has_numeric_battery r)) \<longrightarrow>
      (\<exists>ys. filteredRobots eng m (JArr xs) = Inr ys \<and>
            filteredRobots eng m (JArr ys) = Inr ys))"
proof (intro conjI impI)
  assume "robots s = robots t \<and> filter_mode s = filter_mode t"
  then show "derived eng s = derived eng t"
    by (simp add: derived_def)
next
  assume "filteredRobots eng m (JArr xs) = Inr ys"
  then show "filteredRobots eng m (JArr ys) = Inr ys"
    by (simp add: filterE_idem)
next
  assume "\<forall>r\<in>set xs. readable r \<and> (m = ''low-battery'' \<longrightarrow> has_numeric_battery r)"
  then have "\<And>r. r \<in> set xs \<Longrightarrow> filter_callback eng m r = Inr (spec_keeps m r)"
    by (simp add: filter_callback_spec)
  then have "filterE (filter_callback eng m) xs = Inr (filter (spec_keeps m) xs)"
    by (rule filterE_total)
  then show "\<exists>ys. filteredRobots eng m (JArr xs) = Inr ys \<and>
            filteredRobots eng m (JArr ys) = Inr ys"
    by (simp add: filterE_idem)
qed

theorem filter_is_pure_and_idempotent_witness:
  "robots (init\<lparr>robots := JArr sample_fleet, alerts := [''x'']\<rparr>) =
     robots (init\<lparr>robots := JArr sample_fleet\<rparr>) \<and>
   derived sample_engine (init\<lparr>robots := JArr sample_fleet, alerts := [''x'']\<rparr>) =
     derived sample_engine (init\<lparr>robots := JArr sample_fleet\<rparr>) \<and>
   readable (sample_fleet ! 0) \<and> readable (sample_fleet ! 1) \<and> readable (sample_fleet ! 2) \<and>
   has_numeric_battery (sample_fleet ! 0) \<and> has_numeric_battery (sample_fleet ! 1) \<and>
   has_numeric_battery (sample_fleet ! 2) \<and>
   filteredRobots sample_engine ''low-battery'' (JArr sample_fleet) =
     Inr [sample_fleet ! 0, sample_fleet ! 1] \<and>
   filteredRobots sample_engine ''low-battery'' (JArr [sample_fleet ! 0, sample_fleet ! 1]) =
     Inr [sample_fleet ! 0, sample_fleet ! 1]"
proof -
  have e: "filteredRobots sample_engine ''low-battery'' (JArr sample_fleet) =
     Inr [sample_fleet ! 0, sample_fleet ! 1]"
    by (simp add: sample_fleet_def sample_robot_def filter_callback_def js_lt_def)
  have r: "readable (sample_fleet ! 0) \<and> readable (sample_fleet ! 1) \<and>
    readable (sample_fleet ! 2) \<and> has_numeric_battery (sample_fleet ! 0) \<and>
    has_numeric_battery (sample_fleet ! 1) \<and> has_numeric_battery (sample_fleet ! 2)"
    by (simp add: sample_fleet_def sample_robot_def readable_def has_numeric_battery_def)
  from filter_is_pure_and_idempotent
    [of "init\<lparr>robots := JArr sample_fleet, alerts := [''x'']\<rparr>"
      "init\<lparr>robots := JArr sample_fleet\<rparr>" sample_engine "''low-battery''" sample_fleet
      "[sample_fleet ! 0, sample_fleet ! 1]"] e r
  show ?thesis
    by simp
qed

section \<open>Colours, markers and rows\<close>

lemma location_gate_valid: "location_gate loc = Inr (valid_location loc)"
  by (induction loc rule: valid_location.induct) (simp_all add: location_gate_def)

lemma marker_of_color:
  assumes "marker_of eng r = Inr (Some mk)"
  shows "\<exists>st b. get_prop r ''status'' = Inr st \<and> get_prop r ''battery'' = Inr b \<and>
           getStatusColor eng st b = Inr (m_color mk)"
  using assms
  by (auto simp: marker_of_def bindE_eq_Inr split: if_splits)

lemma marker_of_gate:
  assumes "marker_of eng r = Inr mo"
  shows "\<exists>loc. get_prop r ''location'' = Inr loc \<and> (mo \<noteq> None) = valid_location loc"
  using assms
  by (auto simp: marker_of_def bindE_eq_Inr location_gate_valid split: if_splits)

lemma row_of_color:
  assumes "row_of eng r = Inr w"
  shows "\<exists>st b. get_prop r ''status'' = Inr st \<and> get_prop r ''battery'' = Inr b \<and>
           getStatusColor eng st b = Inr (r_background w) \<and> r_dot w = r_background w"
  using assms
  by (auto simp: row_of_def bindE_eq_Inr)

lemma toFixed2_Inr: "toFixed2 v = Inr n \<longleftrightarrow> v = JNum n"
  by (cases v) auto

text \<open>A row is produced only for a location whose entries 0 and 1 are numbers.\<close>

lemma row_of_location:
  assumes "row_of eng r = Inr w"
  shows "\<exists>loc. get_prop r ''location'' = Inr loc \<and> get_index loc 0 = Inr (JNum (r_lat w)) \<and>
           get_index loc 1 = Inr (JNum (r_lon w))"
  using assms
  by (auto simp: row_of_def bindE_eq_Inr toFixed2_Inr)

lemma render_parts:
  assumes "render eng rs m = Inr v"
  shows "\<exists>ys. filteredRobots eng m rs = Inr ys \<and> mapE (row_of eng) ys = Inr (rows v) \<and>
           mapE (marker_of eng) ys = Inr (markers v)"
  using assms by (auto simp: render_def bindE_eq_Inr)

text \<open>
  What holds of the counts: the derived list is never longer than the fleet, and a
  render that completes has one row and one marker slot for each derived robot.
\<close>

lemma derived_no_longer_than_fleet:
  "filteredRobots eng m (JArr xs) = Inr ys \<Longrightarrow> length ys \<le> length xs"
  by (simp add: filterE_length)

lemma completed_render_counts:
  assumes "render eng rs m = Inr v" "filteredRobots eng m rs = Inr ys"
  shows "length (rows v) = length ys \<and> length (markers v) = length ys"
  using render_parts [OF assms(1)] assms(2)
  by (auto dest: mapE_length)

lemma render_needs_every_row:
  assumes "filteredRobots eng m rs = Inr ys" "r \<in> set ys" "row_of eng r = Inl e"
  shows "render eng rs m \<noteq> Inr v"
proof
  assume "render eng rs m = Inr v"
  from render_parts [OF this] assms(1) have "mapE (row_of eng) ys = Inr (rows v)"
    by auto
  from mapE_all_Inr [OF this assms(2)] assms(3) show False
    by auto
qed

text \<open>
  C5. A status that is exactly \<open>Offline\<close> gives red whatever the battery is (5
  included), so never orange; any other status with a numeric battery gives orange
  below 20 and green otherwise; and the colour of a marker, of a table row and of its
  status dot is what \<open>getStatusColor\<close> returns for that robot's status and battery.
\<close>

theorem status_color_precedence:
  "getStatusColor eng (JStr ''Offline'') b = Inr ''red'' \<and>
   getStatusColor eng (JStr ''Offline'') b \<noteq> Inr ''orange'' \<and>
   (\<not> strict_eq_str st ''Offline'' \<longrightarrow>
      getStatusColor eng st (JNum n) =
        Inr (if num_lt n (Fin 20) then ''orange'' else ''green'')) \<and>
   (marker_of eng r = Inr (Some mk) \<longrightarrow>
      (\<exists>st b. get_prop r ''status'' = Inr st \<and> get_prop r ''battery'' = Inr b \<and>
         getStatusColor eng st b = Inr (m_color mk))) \<and>
   (row_of eng r = Inr w \<longrightarrow>
      (\<exists>st b. get_prop r ''status'' = Inr st \<and> get_prop r ''battery'' = Inr b \<and>
         getStatusColor eng st b = Inr (r_background w) \<and> r_dot w = r_background w))"
proof (intro conjI impI)
  show "getStatusColor eng (JStr ''Offline'') b = Inr ''red''"
    by (simp add: getStatusColor_def)
  then show "getStatusColor eng (JStr ''Offline'') b \<noteq> Inr ''orange''"
    by simp
next
  assume "\<not> strict_eq_str st ''Offline''"
  then show "getStatusColor eng st (JNum n) =
        Inr (if num_lt n (Fin 20) then ''orange'' else ''green'')"
    by (simp add: getStatusColor_def js_lt_def)
next
  assume "marker_of eng r = Inr (Some mk)"
  then show "\<exists>st b. get_prop r ''status'' = Inr st \<and> get_prop r ''battery'' = Inr b \<and>
         getStatusColor eng st b = Inr (m_color mk)"
    by (rule marker_of_color)
next
  assume "row_of eng r = Inr w"
  then show "\<exists>st b. get_prop r ''status'' = Inr st \<and> get_prop r ''battery'' = Inr b \<and>
         getStatusColor eng st b = Inr (r_background w) \<and> r_dot w = r_background w"
    by (rule row_of_color)
qed

theorem status_color_precedence_witness:
  "getStatusColor sample_engine (JStr ''Offline'') (JNum (Fin 5)) = Inr ''red'' \<and>
   \<not> strict_eq_str (JStr ''Online'') ''Offline'' \<and>
   getStatusColor sample_engine (JStr ''Online'') (JNum (Fin 15)) = Inr ''orange'' \<and>
   (\<exists>mk. marker_of sample_engine (sample_fleet ! 1) = Inr (Some mk) \<and> m_color mk = ''red'') \<and>
   (\<exists>w. row_of sample_engine (sample_fleet ! 1) = Inr w \<and> r_background w = ''red'' \<and>
      r_dot w = ''red'')"
proof -
  obtain mk where mk: "marker_of sample_engine (sample_fleet ! 1) = Inr (Some mk)"
    by (simp add: sample_fleet_def sample_robot_def marker_of_def location_gate_valid
        getStatusColor_def)
  obtain w where w: "row_of sample_engine (sample_fleet ! 1) = Inr w"
    by (simp add: sample_fleet_def sample_robot_def row_of_def getStatusColor_def
        sample_engine_def index_key.simps digit_char_def)
  have p: "get_prop (sample_fleet ! 1) ''status'' = Inr (JStr ''Offline'')"
    "get_prop (sample_fleet ! 1) ''battery'' = Inr (JNum (Fin 5))"
    by (simp_all add: sample_fleet_def sample_robot_def)
  from status_color_precedence
    [of sample_engine "JNum (Fin 5)" "JStr ''Online''" "Fin 15" "sample_fleet ! 1" mk w]
    mk w p
  show ?thesis
    by auto
qed

text \<open>
  C6. The three malformed locations of the specification, each on an otherwise complete
  robot shown under \<open>all\<close>: the marker callback returns \<^verbatim>\<open>null\<close>, so the robot is
  left off the map, but the row callback raises at the coordinate cell and the render
  ends with the exception: the robot gets no row, and nothing is rendered at all.
\<close>

theorem malformed_location_breaks_table:
  "marker_of eng (sample_robot ''r1'' ''Online'' 50 JNull) = Inr None \<and>
   marker_of eng (sample_robot ''r1'' ''Online'' 50 (JArr [JNum (Fin 1)])) = Inr None \<and>
   marker_of eng (sample_robot ''r1'' ''Online'' 50 (JArr [JStr ''a'', JStr ''b''])) = Inr None \<and>
   (\<exists>e. row_of eng (sample_robot ''r1'' ''Online'' 50 JNull) = Inl e) \<and>
   (\<exists>e. row_of eng (sample_robot ''r1'' ''Online'' 50 (JArr [JNum (Fin 1)])) = Inl e) \<and>
   (\<exists>e. row_of eng (sample_robot ''r1'' ''Online'' 50 (JArr [JStr ''a'', JStr ''b''])) = Inl e) \<and>
   (\<exists>e. render eng (JArr [sample_robot ''r1'' ''Online'' 50 JNull]) ''all'' = Inl e) \<and>
   (\<exists>e. render eng (JArr [sample_robot ''r1'' ''Online'' 50 (JArr [JNum (Fin 1)])]) ''all'' =
      Inl e) \<and>
   (\<exists>e. render eng (JArr [sample_robot ''r1'' ''Online'' 50 (JArr [JStr ''a'', JStr ''b''])])
      ''all'' = Inl e)"
proof -
  have m: "marker_of eng (sample_robot ''r1'' ''Online'' 50 JNull) = Inr None"
    "marker_of eng (sample_robot ''r1'' ''Online'' 50 (JArr [JNum (Fin 1)])) = Inr None"
    "marker_of eng (sample_robot ''r1'' ''Online'' 50 (JArr [JStr ''a'', JStr ''b''])) = Inr None"
    by (simp_all add: sample_robot_def marker_of_def location_gate_valid)
  have r: "\<exists>e. row_of eng (sample_robot ''r1'' ''Online'' 50 JNull) = Inl e"
    "\<exists>e. row_of eng (sample_robot ''r1'' ''Online'' 50 (JArr [JNum (Fin 1)])) = Inl e"
    "\<exists>e. row_of eng (sample_robot ''r1'' ''Online'' 50 (JArr [JStr ''a'', JStr ''b''])) = Inl e"
    by (simp_all add: sample_robot_def row_of_def bindE_def getStatusColor_def js_lt_def
        split: sum.splits)
  have f: "filteredRobots eng ''all'' (JArr [x]) = Inr [x]" for x
    by (simp add: filter_callback_def)
  have "\<exists>e. render eng (JArr [x]) ''all'' = Inl e" if "\<exists>e. row_of eng x = Inl e" for x
  proof -
    from that obtain e where "row_of eng x = Inl e"
      by blast
    from render_needs_every_row [OF f _ this] have "render eng (JArr [x]) ''all'' \<noteq> Inr v" for v
      by simp
    then show ?thesis
      by (cases "render eng (JArr [x]) ''all''") auto
  qed
  with m r show ?thesis
    by simp
qed

text \<open>
  C8. A view whose fleet is one robot with location \<^verbatim>\<open>null\<close>, shown under \<open>all\<close>:
  the derived list holds the robot, yet the component's body raises and no row is
  shown for it.
\<close>

theorem derived_robot_without_row:
  "derived eng (init\<lparr>phase := Mounted,
      robots := JArr [sample_robot ''r1'' ''Online'' 50 JNull]\<rparr>) =
     Inr [sample_robot ''r1'' ''Online'' 50 JNull] \<and>
   (\<forall>v. App eng (init\<lparr>phase := Mounted,
      robots := JArr [sample_robot ''r1'' ''Online'' 50 JNull]\<rparr>) \<noteq> Inr v)"
proof -
  have f: "filteredRobots eng ''all'' (JArr [sample_robot ''r1'' ''Online'' 50 JNull]) =
     Inr [sample_robot ''r1'' ''Online'' 50 JNull]"
    by (simp add: filter_callback_def)
  have "\<exists>e. row_of eng (sample_robot ''r1'' ''Online'' 50 JNull) = Inl e"
    by (simp add: sample_robot_def row_of_def bindE_def getStatusColor_def js_lt_def
        split: sum.splits)
  then obtain e where "row_of eng (sample_robot ''r1'' ''Online'' 50 JNull) = Inl e"
    by blast
  from render_needs_every_row [OF f _ this] f show ?thesis
    by (simp add: derived_def App_def init_def)
qed

section \<open>The handlers and the event loop\<close>

lemma timers_onclose:
  "timers (onclose s) = timers s @ [\<lparr>t_delay = 5000, t_pending = True\<rparr>]"
  by (simp add: onclose_def setTimeout_def console_log_def)

lemma timers_onerror:
  "timers (onerror s) = timers s @ [\<lparr>t_delay = 5000, t_pending = True\<rparr>]"
  by (simp add: onerror_def setTimeout_def console_error_def alert_def)

lemma onclose_keeps:
  "sockets (onclose s) = sockets s" "socket (onclose s) = socket s"
  "phase (onclose s) = phase s" "robots (onclose s) = robots s"
  "alerts (onclose s) = alerts s" "fetches (onclose s) = fetches s"
  by (simp_all add: onclose_def setTimeout_def console_log_def)

text \<open>One round: the newest connection closes, and the timer of that close fires.\<close>

lemma round_step:
  assumes "length (sockets s) = Suc k" "ready (sockets s ! k) \<noteq> CLOSED"
    "length (timers s) = k"
  shows "\<exists>s2. run eng s [EvClose k, EvTimer k] = Some s2 \<and>
           length (sockets s2) = Suc (Suc k) \<and> ready (sockets s2 ! Suc k) \<noteq> CLOSED \<and>
           length (timers s2) = Suc k \<and>
           map t_delay (timers s2) = map t_delay (timers s) @ [5000] \<and>
           phase s2 = phase s \<and> robots s2 = robots s"
  using assms
  by (simp add: onclose_def setTimeout_def console_log_def set_ready_def connectWebSocket_def
      timer_fired_def nth_append map_update list_update_append)

lemma run_append:
  "run eng s (es @ fs) = (case run eng s es of None \<Rightarrow> None | Some s1 \<Rightarrow> run eng s1 fs)"
  by (induction es arbitrary: s) (auto split: option.splits)

lemma rounds_run:
  assumes "length (sockets s) = Suc k" "ready (sockets s ! k) \<noteq> CLOSED"
    "length (timers s) = k"
  shows "\<exists>s'. run eng s (reconnect_rounds k n) = Some s' \<and>
           length (sockets s') = Suc (k + n) \<and>
           map t_delay (timers s') = map t_delay (timers s) @ replicate n 5000 \<and>
           phase s' = phase s \<and> robots s' = robots s"
  using assms
proof (induction n arbitrary: s k)
  case 0
  then show ?case by simp
next
  case (Suc n)
  from round_step [OF Suc.prems, of eng] obtain s2 where
    r: "run eng s [EvClose k, EvTimer k] = Some s2" and
    a: "length (sockets s2) = Suc (Suc k)" "ready (sockets s2 ! Suc k) \<noteq> CLOSED"
       "length (timers s2) = Suc k" and
    t: "map t_delay (timers s2) = map t_delay (timers s) @ [5000]" and
    p: "phase s2 = phase s" "robots s2 = robots s"
    by blast
  from Suc.IH [OF a] obtain s' where
    r': "run eng s2 (reconnect_rounds (Suc k) n) = Some s'" and
    b: "length (sockets s') = Suc (Suc k + n)"
       "map t_delay (timers s') = map t_delay (timers s2) @ replicate n 5000"
       "phase s' = phase s2" "robots s' = robots s2"
    by blast
  have "reconnect_rounds k (Suc n) = [EvClose k, EvTimer k] @ reconnect_rounds (Suc k) n"
    by simp
  then have "run eng s (reconnect_rounds k (Suc n)) = Some s'"
    using r r' by (simp only: run_append option.case)
  with b t p show ?case
    by (simp add: replicate_app_Cons_same)
qed

text \<open>
  C3. The close handler adds exactly one timer, of 5000 ms, and touches no connection;
  and for every \<open>n\<close> the mounted view goes through \<open>n\<close> rounds of close and reconnect:
  each event of the run is accepted, the view stays mounted, \<open>n\<close> timers were scheduled,
  every one of 5000 ms, and \<open>n + 1\<close> connections were created. No count stops it.
\<close>

theorem close_reconnects_after_5000_forever:
  "timers (onclose s) = timers s @ [\<lparr>t_delay = 5000, t_pending = True\<rparr>] \<and>
   sockets (onclose s) = sockets s \<and>
   (\<exists>s'. run eng init (EvMount # reconnect_rounds 0 n) = Some s' \<and>
      phase s' = Mounted \<and> length (sockets s') = Suc n \<and>
      map t_delay (timers s') = replicate n 5000)"
proof -
  let ?m = "connectWebSocket (fetchRobots_start (init\<lparr>phase := Mounted\<rparr>))"
  have m: "length (sockets ?m) = Suc 0" "ready (sockets ?m ! 0) \<noteq> CLOSED"
    "length (timers ?m) = 0" "phase ?m = Mounted"
    by (simp_all add: connectWebSocket_def fetchRobots_start_def init_def)
  from rounds_run [OF m(1-3), of eng n] obtain s' where
    "run eng ?m (reconnect_rounds 0 n) = Some s'" "length (sockets s') = Suc (0 + n)"
    "map t_delay (timers s') = map t_delay (timers ?m) @ replicate n 5000"
    "phase s' = phase ?m"
    by blast
  then have "run eng init (EvMount # reconnect_rounds 0 n) = Some s' \<and>
      phase s' = Mounted \<and> length (sockets s') = Suc n \<and>
      map t_delay (timers s') = replicate n 5000"
    using m by (simp add: init_def)
  then show ?thesis
    by (auto simp: timers_onclose onclose_keeps)
qed

text \<open>
  C10. An error followed by the close of the same connection leaves two pending timers
  of 5000 ms, one from each handler, and one alert; from the mounted view, once both
  timers have fired there are three connections: the closed one and two new ones, both
  connecting, of which the variable \<open>socket\<close> holds only the last.
\<close>

theorem error_then_close_schedules_two_reconnects:
  "timers (onclose (onerror s)) =
     timers s @ [\<lparr>t_delay = 5000, t_pending = True\<rparr>, \<lparr>t_delay = 5000, t_pending = True\<rparr>] \<and>
   alerts (onclose (onerror s)) =
     alerts s @ [''WebSocket connection failed. Retrying in 5 seconds...''] \<and>
   (\<exists>s'. run eng init [EvMount, EvError 0, EvClose 0, EvTimer 0, EvTimer 1] = Some s' \<and>
      length (sockets s') = 3 \<and> ready (sockets s' ! 0) = CLOSED \<and>
      ready (sockets s' ! 1) = CONNECTING \<and> ready (sockets s' ! 2) = CONNECTING \<and>
      socket s' = Some 2 \<and> map t_delay (timers s') = [5000, 5000] \<and> phase s' = Mounted)"
  by (simp add: init_def onclose_def onerror_def setTimeout_def console_log_def
      console_error_def alert_def set_ready_def connectWebSocket_def fetchRobots_start_def
      timer_fired_def)

text \<open>
  C2. Two runs in which a connection is created after the view is gone. In the first
  the connection closes while the view is mounted, the view unmounts with the reconnect
  timer pending, and the timer fires. In the second the view unmounts, the connection
  that \<open>cleanup\<close> closed reports its close, the close handler schedules a timer, and the
  timer fires. Both end unmounted with a second connection that is connecting and on
  which \<open>close\<close> was never called.
\<close>

theorem reconnect_outlives_teardown:
  "(\<exists>s'. run eng init [EvMount, EvClose 0, EvUnmount, EvTimer 0] = Some s' \<and>
      phase s' = Unmounted \<and> length (sockets s') = 2 \<and>
      ready (sockets s' ! 1) = CONNECTING \<and> close_calls (sockets s' ! 1) = 0) \<and>
   (\<exists>s'. run eng init [EvMount, EvUnmount, EvClose 0, EvTimer 0] = Some s' \<and>
      phase s' = Unmounted \<and> length (sockets s') = 2 \<and>
      ready (sockets s' ! 1) = CONNECTING \<and> close_calls (sockets s' ! 1) = 0)"
  by (simp add: init_def onclose_def setTimeout_def console_log_def cleanup_def ws_close_def
      set_ready_def connectWebSocket_def fetchRobots_start_def timer_fired_def)

text \<open>What teardown does do: one \<open>close\<close> call on the connection \<open>socket\<close> holds.\<close>

lemma cleanup_closes_current:
  assumes "socket s = Some i" "i < length (sockets s)"
  shows "close_calls (sockets (cleanup s) ! i) = Suc (close_calls (sockets s ! i))"
    and "timers (cleanup s) = timers s"
  using assms by (simp_all add: cleanup_def ws_close_def)

text \<open>
  C1. A message whose payload parses to the robots \<open>ms\<close>, none of which is among the
  prior robots \<open>ns\<close>, leaves a state that differs from the prior one in the fleet
  alone; the new fleet is \<open>ms\<close>, as many robots as the message carried, and no robot
  of \<open>ns\<close> is in it.
\<close>

theorem push_message_replaces_fleet:
  assumes "JSON_parse eng data = Inr (JArr ms)" "robots s = JArr ns" "set ms \<inter> set ns = {}"
  shows "onmessage eng data s = s\<lparr>robots := JArr ms\<rparr> \<and>
         fleet_robots (robots (onmessage eng data s)) = ms \<and>
         length (fleet_robots (robots (onmessage eng data s))) = length ms \<and>
         set (fleet_robots (robots (onmessage eng data s))) \<inter> set ns = {}"
  using assms by (simp add: onmessage_def setRobots_def)

theorem push_message_replaces_fleet_witness:
  "JSON_parse sample_engine ''payload'' = Inr (JArr [sample_robot ''r9'' ''Online'' 70 JNull]) \<and>
   robots (init\<lparr>robots := JArr sample_fleet\<rparr>) = JArr sample_fleet \<and>
   set [sample_robot ''r9'' ''Online'' 70 JNull] \<inter> set sample_fleet = {} \<and>
   fleet_robots
     (robots (onmessage sample_engine ''payload'' (init\<lparr>robots := JArr sample_fleet\<rparr>))) =
     [sample_robot ''r9'' ''Online'' 70 JNull]"
proof -
  have 1: "JSON_parse sample_engine ''payload'' =
      Inr (JArr [sample_robot ''r9'' ''Online'' 70 JNull])"
    by (simp add: sample_engine_def)
  have 2: "robots (init\<lparr>robots := JArr sample_fleet\<rparr>) = JArr sample_fleet"
    by simp
  have 3: "set [sample_robot ''r9'' ''Online'' 70 JNull] \<inter> set sample_fleet = {}"
    by (simp add: sample_fleet_def sample_robot_def)
  from push_message_replaces_fleet [OF 1 2 3] 1 2 3 show ?thesis
    by simp
qed

section \<open>The snapshot fetch\<close>

lemma fetch_failed_done:
  assumes "fetch_failed outcome"
  shows "fetchRobots_done eng outcome s =
           s\<lparr>fetch_pending := False,
             console := console s @
               [ConsoleError ''Error fetching robots:'' (failure_detail outcome)],
             alerts := alerts s @
               [''Failed to fetch robot data. Please check if the backend is running.'']\<rparr>"
  using assms
  by (cases outcome)
    (simp_all add: fetchRobots_done_def fetch_catch_def alert_def console_error_def)

text \<open>A fetch is issued when the view mounts and at no other event.\<close>

lemma step_fetches_inv:
  assumes "step eng s e = Some s'" "fetches s = (if phase s = Initial then 0 else 1)"
  shows "fetches s' = (if phase s' = Initial then 0 else 1)"
  using assms
  by (cases e)
    (auto simp: connectWebSocket_def fetchRobots_start_def cleanup_def fetchRobots_done_def
      fetch_catch_def alert_def console_error_def console_log_def setRobots_def set_ready_def
      onmessage_def onerror_def onclose_def setTimeout_def timer_fired_def setFilter_def
      Let_def
      split: if_splits option.splits fetch_outcome.splits sum.splits)

lemma run_fetches_inv:
  assumes "run eng s es = Some s'" "fetches s = (if phase s = Initial then 0 else 1)"
  shows "fetches s' = (if phase s' = Initial then 0 else 1)"
  using assms
proof (induction es arbitrary: s)
  case Nil
  then show ?case by simp
next
  case (Cons e es)
  from Cons.prems(1) obtain s1 where 1: "step eng s e = Some s1"
    and 2: "run eng s1 es = Some s'"
    by (auto split: option.splits)
  from Cons.IH [OF 2 step_fetches_inv [OF 1 Cons.prems(2)]] show ?case .
qed

text \<open>Apart from a push message, only a parsed 2xx snapshot writes the fleet.\<close>

lemma step_robots:
  assumes "step eng s e = Some s'" "\<not> is_message e"
  shows "robots s' = robots s \<or>
         (\<exists>st body. e = EvFetchDone (Response True st body) \<and>
            JSON_parse eng body = Inr (robots s'))"
  using assms
  by (cases e)
    (auto simp: connectWebSocket_def fetchRobots_start_def cleanup_def fetchRobots_done_def
      fetch_catch_def alert_def console_error_def console_log_def setRobots_def set_ready_def
      onerror_def onclose_def setTimeout_def timer_fired_def setFilter_def Let_def
      split: if_splits option.splits fetch_outcome.splits sum.splits)

lemma run_robots:
  assumes "run eng s es = Some s'" "\<forall>e\<in>set es. \<not> is_message e"
  shows "robots s' = robots s \<or>
         (\<exists>st body. EvFetchDone (Response True st body) \<in> set es \<and>
            JSON_parse eng body = Inr (robots s'))"
  using assms
proof (induction es arbitrary: s)
  case Nil
  then show ?case by simp
next
  case (Cons e es)
  from Cons.prems(1) obtain s1 where 1: "step eng s e = Some s1"
    and 2: "run eng s1 es = Some s'"
    by (auto split: option.splits)
  from Cons.prems(2) have ne: "\<not> is_message e" and nes: "\<forall>e\<in>set es. \<not> is_message e"
    by simp_all
  from Cons.IH [OF 2 nes] show ?case
  proof
    assume same: "robots s' = robots s1"
    from step_robots [OF 1 ne] show ?thesis
    proof
      assume "robots s1 = robots s"
      with same show ?thesis by simp
    next
      assume "\<exists>st body. e = EvFetchDone (Response True st body) \<and>
                JSON_parse eng body = Inr (robots s1)"
      then obtain st body where "e = EvFetchDone (Response True st body)"
        "JSON_parse eng body = Inr (robots s')"
        using same by auto
      then have "EvFetchDone (Response True st body) \<in> set (e # es) \<and>
                 JSON_parse eng body = Inr (robots s')"
        by simp
      then show ?thesis by blast
    qed
  next
    assume "\<exists>st body. EvFetchDone (Response True st body) \<in> set es \<and>
              JSON_parse eng body = Inr (robots s')"
    then obtain st body where "EvFetchDone (Response True st body) \<in> set (e # es) \<and>
                 JSON_parse eng body = Inr (robots s')"
      by auto
    then show ?thesis by blast
  qed
qed

text \<open>
  C7. When the request is rejected or answered outside 2xx, the completion leaves the
  fleet, the number of requests issued, the timers and the connections as they were,
  shows the one fixed alert, and writes one console entry that carries the detail. In
  every run from the initial state at most one request is ever issued. And in a run
  with no push message a fleet other than the empty one is the parsed body of a 2xx
  response that occurs in the run.
\<close>

theorem failed_fetch_alerts_once_no_retry:
  "(fetch_failed outcome \<longrightarrow>
      robots (fetchRobots_done eng outcome s) = robots s \<and>
      fetches (fetchRobots_done eng outcome s) = fetches s \<and>
      timers (fetchRobots_done eng outcome s) = timers s \<and>
      sockets (fetchRobots_done eng outcome s) = sockets s \<and>
      alerts (fetchRobots_done eng outcome s) =
        alerts s @ [''Failed to fetch robot data. Please check if the backend is running.''] \<and>
      console (fetchRobots_done eng outcome s) =
        console s @ [ConsoleError ''Error fetching robots:'' (failure_detail outcome)]) \<and>
   (run eng init es = Some s' \<longrightarrow> fetches s' \<le> 1) \<and>
   (run eng init es = Some s' \<and> (\<forall>e\<in>set es. \<not> is_message e) \<and> robots s' \<noteq> JArr [] \<longrightarrow>
      (\<exists>st body. EvFetchDone (Response True st body) \<in> set es \<and>
         JSON_parse eng body = Inr (robots s')))"
proof (intro conjI impI)
  assume "run eng init es = Some s'"
  from run_fetches_inv [OF this] show "fetches s' \<le> 1"
    by (simp add: init_def split: if_splits)
next
  assume a: "run eng init es = Some s' \<and> (\<forall>e\<in>set es. \<not> is_message e) \<and>
    robots s' \<noteq> JArr []"
  then have "robots s' \<noteq> robots init"
    by (simp add: init_def)
  with run_robots [of eng init es s'] a
  show "\<exists>st body. EvFetchDone (Response True st body) \<in> set es \<and>
         JSON_parse eng body = Inr (robots s')"
    by blast
qed (simp_all add: fetch_failed_done)

theorem failed_fetch_alerts_once_no_retry_witness:
  "fetch_failed (Response False ''Not Found'' ''body'') \<and>
   robots (fetchRobots_done sample_engine (Response False ''Not Found'' ''body'') init) =
     JArr [] \<and>
   alerts (fetchRobots_done sample_engine (Response False ''Not Found'' ''body'') init) =
     [''Failed to fetch robot data. Please check if the backend is running.''] \<and>
   console (fetchRobots_done sample_engine (Response False ''Not Found'' ''body'') init) =
     [ConsoleError ''Error fetching robots:'' (ErrorObject ''Error: Not Found'')] \<and>
   \<not> is_message EvMount \<and> \<not> is_message (EvFetchDone (Response True ''OK'' ''body'')) \<and>
   (\<exists>s'. run sample_engine init [EvMount, EvFetchDone (Response True ''OK'' ''body'')] =
        Some s' \<and>
      robots s' \<noteq> JArr [] \<and> fetches s' \<le> 1 \<and>
      (\<exists>st body.
         EvFetchDone (Response True st body) \<in>
           set [EvMount, EvFetchDone (Response True ''OK'' ''body'')] \<and>
         JSON_parse sample_engine body = Inr (robots s')))"
proof -
  obtain s' where r:
    "run sample_engine init [EvMount, EvFetchDone (Response True ''OK'' ''body'')] = Some s'"
    and ne: "robots s' \<noteq> JArr []"
    by (simp add: init_def connectWebSocket_def fetchRobots_start_def fetchRobots_done_def
        setRobots_def sample_engine_def)
  have m: "\<forall>e\<in>set [EvMount, EvFetchDone (Response True ''OK'' ''body'')]. \<not> is_message e"
    by simp
  have f: "fetch_failed (Response False ''Not Found'' ''body'')"
    by simp
  from failed_fetch_alerts_once_no_retry
    [of "Response False ''Not Found'' ''body''" sample_engine init
      "[EvMount, EvFetchDone (Response True ''OK'' ''body'')]" s'] r ne m f
  have "robots (fetchRobots_done sample_engine (Response False ''Not Found'' ''body'') init) =
      robots init \<and>
    alerts (fetchRobots_done sample_engine (Response False ''Not Found'' ''body'') init) =
      alerts init @ [''Failed to fetch robot data. Please check if the backend is running.''] \<and>
    console (fetchRobots_done sample_engine (Response False ''Not Found'' ''body'') init) =
      console init @ [ConsoleError ''Error fetching robots:''
        (failure_detail (Response False ''Not Found'' ''body''))] \<and>
    fetches s' \<le> 1 \<and>
    (\<exists>st body.
         EvFetchDone (Response True st body) \<in>
           set [EvMount, EvFetchDone (Response True ''OK'' ''body'')] \<and>
         JSON_parse sample_engine body = Inr (robots s'))"
    by blast
  with r ne show ?thesis
    by (auto simp: init_def)
qed

end
